theory Spec2Isabelle
  imports Main
begin

section \<open>Thrown values and promises\<close>

text \<open>
  A JavaScript \<^verbatim>\<open>throw\<close> (or a rejected promise) carries either an \<^verbatim>\<open>Error\<close> object with its
  message, or some other value. The catch blocks of the chat service and of the chat
  controller only ever look at \<^verbatim>\<open>error instanceof Error\<close>, \<^verbatim>\<open>error.message\<close> and
  \<^verbatim>\<open>String(error)\<close>, so a non-\<^verbatim>\<open>Error\<close> value is kept as its \<^verbatim>\<open>String(...)\<close> rendering.

  The result of awaiting a promise is a sum: \<open>Inl t\<close> when it rejects with \<open>t\<close>,
  \<open>Inr v\<close> when it resolves to \<open>v\<close>.
\<close>

datatype thrown = ErrorObj string | NonError string

type_synonym 'a promise = "thrown + 'a"

text \<open>\<^verbatim>\<open>error instanceof Error ? error.message : fallback\<close>\<close>

fun message_or :: "thrown \<Rightarrow> string \<Rightarrow> string" where
  "message_or (ErrorObj m) fallback = m"
| "message_or (NonError s) fallback = fallback"

text \<open>\<^verbatim>\<open>error instanceof Error ? error.message : String(error)\<close>\<close>

fun message_or_String :: "thrown \<Rightarrow> string" where
  "message_or_String (ErrorObj m) = m"
| "message_or_String (NonError s) = s"

section \<open>The document store behind \<^verbatim>\<open>ChatModel\<close> and \<^verbatim>\<open>MessageModel\<close>\<close>

text \<open>
  The chat service (\<^verbatim>\<open>services/chat.service\<close>) talks to two Mongoose models. The models are
  library objects; the store below gives the operations the service uses their documented
  meaning:
  \<^item> every operation may throw (connection loss, cast or validation error). Which one
    throws is not decided by the service, so the store carries a script \<open>faults\<close>: each
    operation takes the head of the script, throws if it is \<open>Some t\<close> and leaves the
    collections alone, and succeeds if it is \<open>None\<close> or the script is exhausted;
  \<^item> \<^verbatim>\<open>insertMany\<close> and \<^verbatim>\<open>save\<close> give each new document a fresh \<^verbatim>\<open>_id\<close> and append it to
    its collection, \<^verbatim>\<open>insertMany\<close> returning the saved documents in the order given;
  \<^item> \<^verbatim>\<open>findById\<close> returns the document with that \<^verbatim>\<open>_id\<close>, or \<^verbatim>\<open>null\<close>;
  \<^item> \<^verbatim>\<open>findByIdAndUpdate(id, u, {new: true})\<close> returns the document after the update, or
    \<^verbatim>\<open>null\<close>; \<^verbatim>\<open>$push\<close> appends to an array field, \<^verbatim>\<open>$addToSet\<close> appends unless the
    value is already in the array;
  \<^item> \<^verbatim>\<open>find({participants: {$all: p}})\<close> returns the documents whose \<^verbatim>\<open>participants\<close>
    array holds every element of \<open>p\<close>; with an empty \<open>p\<close>, \<^verbatim>\<open>$all\<close> matches no document.

  An \<^verbatim>\<open>ObjectId\<close> and its \<^verbatim>\<open>toString()\<close> are identified: identifiers are strings.
\<close>

record message =
  msg :: string
  msgFrom :: string
  msgDateTime :: nat
  msgType :: string

record message_doc =
  message_id :: "string option"
  message_body :: message

record chat =
  chat_id :: string
  participants :: "string list"
  messages :: "string list"

record store =
  chat_collection :: "chat list"
  message_collection :: "message_doc list"
  next_id :: nat
  faults :: "thrown option list"

text \<open>The identifier drawn for the \<open>n\<close>-th document created: distinct for distinct \<open>n\<close>.\<close>

definition objectId :: "nat \<Rightarrow> string" where
  "objectId n = CHR ''o'' # replicate n (CHR ''i'')"

text \<open>Taking the next entry of the fault script.\<close>

definition next_fault :: "store \<Rightarrow> thrown option \<times> store" where
  "next_fault d =
     (case faults d of
        [] \<Rightarrow> (None, d)
      | f # fs \<Rightarrow> (f, d\<lparr>faults := fs\<rparr>))"

fun new_message_docs :: "nat \<Rightarrow> message list \<Rightarrow> message_doc list" where
  "new_message_docs n [] = []"
| "new_message_docs n (m # ms) =
     \<lparr>message_id = Some (objectId n), message_body = m\<rparr> # new_message_docs (Suc n) ms"

definition MessageModel_insertMany ::
  "store \<Rightarrow> message list \<Rightarrow> message_doc list promise \<times> store" where
  "MessageModel_insertMany d ms =
     (case next_fault d of
        (Some t, d') \<Rightarrow> (Inl t, d')
      | (None, d') \<Rightarrow>
          (let saved = new_message_docs (next_id d') ms
           in (Inr saved,
               d'\<lparr>message_collection := message_collection d' @ saved,
                   next_id := next_id d' + length ms\<rparr>)))"

definition MessageModel_save :: "store \<Rightarrow> message \<Rightarrow> message_doc promise \<times> store" where
  "MessageModel_save d m =
     (case next_fault d of
        (Some t, d') \<Rightarrow> (Inl t, d')
      | (None, d') \<Rightarrow>
          (let saved = \<lparr>message_id = Some (objectId (next_id d')), message_body = m\<rparr>
           in (Inr saved,
               d'\<lparr>message_collection := message_collection d' @ [saved],
                   next_id := Suc (next_id d')\<rparr>)))"

definition ChatModel_save ::
  "store \<Rightarrow> string list \<Rightarrow> string list \<Rightarrow> chat promise \<times> store" where
  "ChatModel_save d ps ms =
     (case next_fault d of
        (Some t, d') \<Rightarrow> (Inl t, d')
      | (None, d') \<Rightarrow>
          (let saved = \<lparr>chat_id = objectId (next_id d'), participants = ps, messages = ms\<rparr>
           in (Inr saved,
               d'\<lparr>chat_collection := chat_collection d' @ [saved], next_id := Suc (next_id d')\<rparr>)))"

definition ChatModel_findById :: "store \<Rightarrow> string \<Rightarrow> chat option promise \<times> store" where
  "ChatModel_findById d cid =
     (case next_fault d of
        (Some t, d') \<Rightarrow> (Inl t, d')
      | (None, d') \<Rightarrow> (Inr (find (\<lambda>c. chat_id c = cid) (chat_collection d')), d'))"

text \<open>The update operators the service uses.\<close>

datatype update_op = Push_messages string | AddToSet_participants string

fun apply_update :: "update_op \<Rightarrow> chat \<Rightarrow> chat" where
  "apply_update (Push_messages mid) c = c\<lparr>messages := messages c @ [mid]\<rparr>"
| "apply_update (AddToSet_participants uid) c =
     (if uid \<in> set (participants c) then c
      else c\<lparr>participants := participants c @ [uid]\<rparr>)"

text \<open>Replacing the first document with the given \<^verbatim>\<open>_id\<close>.\<close>

fun update_first :: "string \<Rightarrow> update_op \<Rightarrow> chat list \<Rightarrow> chat list" where
  "update_first cid u [] = []"
| "update_first cid u (c # cs) =
     (if chat_id c = cid then apply_update u c # cs else c # update_first cid u cs)"

definition ChatModel_findByIdAndUpdate ::
  "store \<Rightarrow> string \<Rightarrow> update_op \<Rightarrow> chat option promise \<times> store" where
  "ChatModel_findByIdAndUpdate d cid u =
     (case next_fault d of
        (Some t, d') \<Rightarrow> (Inl t, d')
      | (None, d') \<Rightarrow>
          (case find (\<lambda>c. chat_id c = cid) (chat_collection d') of
             None \<Rightarrow> (Inr None, d')
           | Some c \<Rightarrow>
               (Inr (Some (apply_update u c)),
                d'\<lparr>chat_collection := update_first cid u (chat_collection d')\<rparr>)))"

text \<open>\<^verbatim>\<open>{ participants: { $all: p } }\<close>\<close>

definition matches_all :: "string list \<Rightarrow> chat \<Rightarrow> bool" where
  "matches_all p c \<longleftrightarrow> p \<noteq> [] \<and> list_all (\<lambda>u. u \<in> set (participants c)) p"

definition ChatModel_find_all :: "store \<Rightarrow> string list \<Rightarrow> chat list promise \<times> store" where
  "ChatModel_find_all d p =
     (case next_fault d of
        (Some t, d') \<Rightarrow> (Inl t, d')
      | (None, d') \<Rightarrow> (Inr (filter (matches_all p) (chat_collection d')), d'))"

section \<open>The chat service\<close>

text \<open>
  Every function of the service is one \<^verbatim>\<open>try { ... } catch (error) { return ... }\<close>. The
  body runs on the store and either throws or returns; the handler turns what was thrown
  into the value returned. \<open>ChatResponse\<close> is \<^verbatim>\<open>Chat | { error: string }\<close>: \<open>Inl\<close> the
  error object's message.
\<close>

type_synonym chat_response = "string + chat"
type_synonym message_response = "string + message_doc"

definition try_catch :: "'a promise \<times> store \<Rightarrow> (thrown \<Rightarrow> 'a) \<Rightarrow> 'a promise \<times> store" where
  "try_catch body handler =
     (case body of
        (Inl t, d) \<Rightarrow> (Inr (handler t), d)
      | (Inr v, d) \<Rightarrow> (Inr v, d))"

record create_chat_payload =
  payload_participants :: "string list"
  payload_messages :: "message list option"

text \<open>
  \<^verbatim>\<open>savedMessages.map(msg => msg._id.toString())\<close>: reading \<^verbatim>\<open>toString\<close> of an undefined
  \<^verbatim>\<open>_id\<close> throws a \<^verbatim>\<open>TypeError\<close>.
\<close>

fun ids_toString :: "message_doc list \<Rightarrow> string list promise" where
  "ids_toString [] = Inr []"
| "ids_toString (m # ms) =
     (case message_id m of
        None \<Rightarrow> Inl (ErrorObj ''Cannot read properties of undefined (reading toString)'')
      | Some i \<Rightarrow> (case ids_toString ms of Inl t \<Rightarrow> Inl t | Inr ids \<Rightarrow> Inr (i # ids)))"

text \<open>
  \<^verbatim>\<open>saveChat\<close>: the messages are inserted when the payload has a non-empty \<^verbatim>\<open>messages\<close>
  array (\<open>None\<close> is an absent field), and the chat is created with their identifiers.
\<close>

definition saveChat :: "store \<Rightarrow> create_chat_payload \<Rightarrow> chat_response promise \<times> store" where
  "saveChat d chatPayload =
     try_catch
       (case (case payload_messages chatPayload of
                Some (m # ms) \<Rightarrow>
                  (case MessageModel_insertMany d (m # ms) of
                     (Inl t, d1) \<Rightarrow> (Inl t, d1)
                   | (Inr savedMessages, d1) \<Rightarrow> (ids_toString savedMessages, d1))
              | _ \<Rightarrow> (Inr [], d)) of
          (Inl t, d1) \<Rightarrow> (Inl t, d1)
        | (Inr messageIds, d1) \<Rightarrow>
            (case ChatModel_save d1 (payload_participants chatPayload) messageIds of
               (Inl t, d2) \<Rightarrow> (Inl t, d2)
             | (Inr savedChat, d2) \<Rightarrow> (Inr (Inr savedChat), d2)))
       (\<lambda>error. Inl (message_or error ''Failed to save chat''))"

definition createMessage :: "store \<Rightarrow> message \<Rightarrow> message_response promise \<times> store" where
  "createMessage d messageData =
     try_catch
       (case MessageModel_save d messageData of
          (Inl t, d1) \<Rightarrow> (Inl t, d1)
        | (Inr savedMessage, d1) \<Rightarrow> (Inr (Inr savedMessage), d1))
       (\<lambda>error. Inl (message_or error ''Failed to create message''))"

definition addMessageToChat :: "store \<Rightarrow> string \<Rightarrow> string \<Rightarrow> chat_response promise \<times> store" where
  "addMessageToChat d chatId messageId =
     try_catch
       (case ChatModel_findByIdAndUpdate d chatId (Push_messages messageId) of
          (Inl t, d1) \<Rightarrow> (Inl t, d1)
        | (Inr None, d1) \<Rightarrow> (Inr (Inl ''Chat not found''), d1)
        | (Inr (Some updatedChat), d1) \<Rightarrow> (Inr (Inr updatedChat), d1))
       (\<lambda>error. Inl (message_or error ''Failed to add message to chat''))"

definition getChat :: "store \<Rightarrow> string \<Rightarrow> chat_response promise \<times> store" where
  "getChat d chatId =
     try_catch
       (case ChatModel_findById d chatId of
          (Inl t, d1) \<Rightarrow> (Inl t, d1)
        | (Inr None, d1) \<Rightarrow> (Inr (Inl ''Chat not found''), d1)
        | (Inr (Some c), d1) \<Rightarrow> (Inr (Inr c), d1))
       (\<lambda>error. Inl (message_or error ''Failed to retrieve chat''))"

text \<open>
  \<^verbatim>\<open>getChatsByParticipants\<close>: the lookup gives an array, so of the three tests
  \<^verbatim>\<open>!chats || !Array.isArray(chats) || chats.length === 0\<close> only the last can hold; the
  handler of the \<^verbatim>\<open>catch\<close> returns the empty array.
\<close>

definition getChatsByParticipants :: "store \<Rightarrow> string list \<Rightarrow> chat list promise \<times> store" where
  "getChatsByParticipants d p =
     try_catch
       (case ChatModel_find_all d p of
          (Inl t, d1) \<Rightarrow> (Inl t, d1)
        | (Inr found, d1) \<Rightarrow> (if found = [] then (Inr [], d1) else (Inr found, d1)))
       (\<lambda>error. [])"

text \<open>
  \<^verbatim>\<open>addParticipantToChat\<close> returns \<^verbatim>\<open>{ ...updatedChat.toObject(), _id: updatedChat._id.toString() }\<close>,
  which is the updated chat itself where an identifier is its string.
\<close>

definition addParticipantToChat ::
  "store \<Rightarrow> string \<Rightarrow> string \<Rightarrow> chat_response promise \<times> store" where
  "addParticipantToChat d chatId userId =
     try_catch
       (case ChatModel_findByIdAndUpdate d chatId (AddToSet_participants userId) of
          (Inl t, d1) \<Rightarrow> (Inl t, d1)
        | (Inr None, d1) \<Rightarrow> (Inr (Inl ''Chat not found''), d1)
        | (Inr (Some updatedChat), d1) \<Rightarrow> (Inr (Inr updatedChat), d1))
       (\<lambda>error. Inl (message_or error ''Failed to update chat''))"

section \<open>Requests and responses of the chat controller\<close>

text \<open>
  A request body is whatever JSON the client sent; the validators of the controller
  inspect it dynamically (\<^verbatim>\<open>Array.isArray\<close>, \<^verbatim>\<open>typeof\<close>, truthiness), so it is kept as an
  untyped JavaScript value. An object is the list of its properties; a property that is
  not there reads as \<^verbatim>\<open>undefined\<close>.
\<close>

datatype jsval =
    JUndefined
  | JNull
  | JBool bool
  | JNum int
  | JStr string
  | JDate nat
  | JArr "jsval list"
  | JObj "(string \<times> jsval) list"

text \<open>\<^verbatim>\<open>!!v\<close>\<close>

fun truthy :: "jsval \<Rightarrow> bool" where
  "truthy JUndefined = False"
| "truthy JNull = False"
| "truthy (JBool b) = b"
| "truthy (JNum n) = (n \<noteq> 0)"
| "truthy (JStr s) = (s \<noteq> [])"
| "truthy (JDate t) = True"
| "truthy (JArr xs) = True"
| "truthy (JObj kvs) = True"

text \<open>
  \<^verbatim>\<open>v?.k\<close>: a property of an object of the request; \<^verbatim>\<open>undefined\<close> on \<^verbatim>\<open>null\<close> and
  \<^verbatim>\<open>undefined\<close> and on a value that has no such property. The plain \<^verbatim>\<open>v.k\<close> throws on
  \<^verbatim>\<open>null\<close> and \<^verbatim>\<open>undefined\<close>; the controller reads it only behind \<^verbatim>\<open>!!v &&\<close> or after
  \<^verbatim>\<open>v?.k\<close> gave an array, where both agree.
\<close>

fun get_prop :: "jsval \<Rightarrow> string \<Rightarrow> jsval" where
  "get_prop (JObj kvs) k = (case map_of kvs k of None \<Rightarrow> JUndefined | Some v \<Rightarrow> v)"
| "get_prop v k = JUndefined"

fun isArray :: "jsval \<Rightarrow> bool" where
  "isArray (JArr xs) = True"
| "isArray v = False"

text \<open>\<^verbatim>\<open>v.length > 0\<close>, read where \<open>v\<close> is an array.\<close>

fun length_positive :: "jsval \<Rightarrow> bool" where
  "length_positive (JArr xs) = (0 < length xs)"
| "length_positive v = False"

text \<open>\<^verbatim>\<open>typeof v === 'string'\<close>\<close>

fun is_string :: "jsval \<Rightarrow> bool" where
  "is_string (JStr s) = True"
| "is_string v = False"

text \<open>\<^verbatim>\<open>v ?? d\<close>\<close>

fun nullish_or :: "jsval \<Rightarrow> jsval \<Rightarrow> jsval" where
  "nullish_or JUndefined d = d"
| "nullish_or JNull d = d"
| "nullish_or v d = v"

text \<open>\<^verbatim>\<open>{ ...v }\<close>: the own properties of an object (none for a primitive).\<close>

fun spread :: "jsval \<Rightarrow> (string \<times> jsval) list" where
  "spread (JObj kvs) = kvs"
| "spread v = []"

text \<open>A property written in an object literal after a spread replaces the spread one.\<close>

fun set_prop :: "string \<Rightarrow> jsval \<Rightarrow> (string \<times> jsval) list \<Rightarrow> (string \<times> jsval) list" where
  "set_prop k v [] = [(k, v)]"
| "set_prop k v (p # ps) = (if fst p = k then (k, v) # ps else p # set_prop k v ps)"

text \<open>
  \<^verbatim>\<open>req.params\<close> is Express's dictionary of route parameters, always an object, with
  string values; a parameter that is not there reads as \<^verbatim>\<open>undefined\<close> (\<open>None\<close>).
\<close>

type_synonym param = "string option"

record request =
  body :: jsval
  params :: "(string \<times> string) list"

text \<open>\<^verbatim>\<open>!!p\<close> for a value that is a string or \<^verbatim>\<open>undefined\<close>.\<close>

fun defined_nonempty :: "param \<Rightarrow> bool" where
  "defined_nonempty None = False"
| "defined_nonempty (Some s) = (s \<noteq> [])"

text \<open>
  \<^verbatim>\<open>populateDocument\<close> (\<^verbatim>\<open>utils/database.util\<close>) resolves to the populated chat, to an
  object with an \<^verbatim>\<open>error\<close> property, or to a falsy value, which the guard
  \<^verbatim>\<open>populated && 'error' in populated\<close> lets through.
\<close>

record populated_chat =
  populated_id :: string
  populated_participants :: "string list"
  populated_messages :: "message_doc list"

datatype populated = Pop_null | Pop_error string | Pop_chat populated_chat

text \<open>\<^verbatim>\<open>populated && 'error' in populated\<close>\<close>

fun has_error :: "populated \<Rightarrow> bool" where
  "has_error (Pop_error e) = True"
| "has_error p = False"

text \<open>
  What a handler does that can be seen from outside, in the order it does it: the calls
  to the chat service and to \<^verbatim>\<open>populateDocument\<close>, \<^verbatim>\<open>socket.emit(ev, x)\<close> (to every
  connected client), \<^verbatim>\<open>socket.to(room).emit(ev, x)\<close> (to the clients in one room), and the
  HTTP response: \<^verbatim>\<open>res.status(n).json(x)\<close> or \<^verbatim>\<open>res.status(n).send(text)\<close>.
\<close>

datatype res_body =
    Json_error string
  | Json_chat chat
  | Json_populated populated
  | Json_populated_list "populated list"
  | Plain_text string

datatype effect =
    Call_saveChat jsval
  | Call_createMessage jsval
  | Call_addMessageToChat param string
  | Call_getChat param
  | Call_getChatsByParticipants "param list"
  | Call_addParticipantToChat param jsval
  | Call_populateDocument param string
  | Emit string populated
  | EmitTo param string populated
  | Respond nat res_body


fun is_emission :: "effect \<Rightarrow> bool" where
  "is_emission (Emit ev x) = True"
| "is_emission (EmitTo room ev x) = True"
| "is_emission e = False"

fun is_json :: "res_body \<Rightarrow> bool" where
  "is_json (Plain_text s) = False"
| "is_json b = True"

text \<open>
  What each awaited call gives back is decided outside the controller: by the store, for
  the functions of the chat service, and by \<^verbatim>\<open>populateDocument\<close>. The handlers are
  defined for any such outcome, rejection included, given as a function of the
  arguments of the call.
\<close>

record services =
  saveChat_result :: "jsval \<Rightarrow> chat_response promise"
  createMessage_result :: "jsval \<Rightarrow> message_response promise"
  addMessageToChat_result :: "param \<Rightarrow> string \<Rightarrow> chat_response promise"
  getChat_result :: "param \<Rightarrow> chat_response promise"
  getChatsByParticipants_result :: "param list \<Rightarrow> chat list promise"
  addParticipantToChat_result :: "param \<Rightarrow> jsval \<Rightarrow> chat_response promise"
  populateDocument_result :: "param \<Rightarrow> string \<Rightarrow> populated promise"

section \<open>The chat controller\<close>

definition isCreateChatRequestValid :: "request \<Rightarrow> bool" where
  "isCreateChatRequestValid req \<longleftrightarrow>
     isArray (get_prop (body req) ''participants'') \<and>
     length_positive (get_prop (body req) ''participants'')"

definition isAddMessageRequestValid :: "request \<Rightarrow> bool" where
  "isAddMessageRequestValid req \<longleftrightarrow>
     truthy (body req) \<and>
     truthy (get_prop (body req) ''msg'') \<and>
     truthy (get_prop (body req) ''msgFrom'') \<and>
     is_string (get_prop (body req) ''msg'') \<and>
     is_string (get_prop (body req) ''msgFrom'')"

text \<open>
  Of the six conjuncts of \<^verbatim>\<open>isAddParticipantRequestValid\<close>, \<^verbatim>\<open>!!req.params\<close> and
  \<^verbatim>\<open>typeof req.params.chatId === 'string'\<close> hold of every \<open>request\<close> whose \<^verbatim>\<open>chatId\<close> is
  defined; the other four are below, in the order of the source.
\<close>

definition isAddParticipantRequestValid :: "request \<Rightarrow> bool" where
  "isAddParticipantRequestValid req \<longleftrightarrow>
     truthy (body req) \<and>
     truthy (get_prop (body req) ''participantId'') \<and>
     defined_nonempty (map_of (params req) ''chatId'') \<and>
     is_string (get_prop (body req) ''participantId'')"

text \<open>
  The tail shared by the handlers that populate one chat and answer with it: the call of
  \<^verbatim>\<open>populateDocument\<close>, the \<^verbatim>\<open>throw\<close> into the handler's own \<^verbatim>\<open>catch\<close> when it rejects or
  gives an error object, and otherwise the emissions \<open>emit\<close> and the response \<open>ok\<close>.
\<close>

definition populate_then ::
  "services \<Rightarrow> param \<Rightarrow> string \<Rightarrow> (populated \<Rightarrow> effect list) \<Rightarrow> effect list" where
  "populate_then sv docId failure continue =
     Call_populateDocument docId ''chat'' #
     (case populateDocument_result sv docId ''chat'' of
        Inl t \<Rightarrow> [Respond 500 (Json_error failure)]
      | Inr populatedDoc \<Rightarrow>
          (if has_error populatedDoc then [Respond 500 (Json_error failure)]
           else continue populatedDoc))"

definition createChatRoute :: "services \<Rightarrow> request \<Rightarrow> effect list" where
  "createChatRoute sv req =
     (if \<not> isCreateChatRequestValid req
      then [Respond 400 (Json_error ''Invalid request body'')]
      else Call_saveChat (body req) #
        (case saveChat_result sv (body req) of
           Inl t \<Rightarrow> [Respond 500 (Json_error ''Failed to create chat'')]
         | Inr (Inl e) \<Rightarrow> [Respond 500 (Json_error e)]
         | Inr (Inr c) \<Rightarrow>
             populate_then sv (Some (chat_id c)) ''Failed to create chat''
               (\<lambda>populatedDoc.
                  [Emit ''chatUpdate'' populatedDoc,
                   Respond 200 (Json_populated populatedDoc)])))"

text \<open>
  \<^verbatim>\<open>{ ...messageData, msgDateTime: messageData.msgDateTime ?? new Date(),
     type: messageData.type ?? 'direct' }\<close>, with \<open>now\<close> the time of \<^verbatim>\<open>new Date()\<close>.
\<close>

definition messagePayload :: "nat \<Rightarrow> jsval \<Rightarrow> jsval" where
  "messagePayload now messageData =
     JObj (set_prop ''type'' (nullish_or (get_prop messageData ''type'') (JStr ''direct''))
          (set_prop ''msgDateTime''
             (nullish_or (get_prop messageData ''msgDateTime'') (JDate now))
             (spread messageData)))"

definition addMessageToChatRoute :: "services \<Rightarrow> nat \<Rightarrow> request \<Rightarrow> effect list" where
  "addMessageToChatRoute sv now req =
     (if \<not> isAddMessageRequestValid req
      then [Respond 400 (Json_error ''Invalid request body'')]
      else
        (let chatId = map_of (params req) ''chatId'';
             payload = messagePayload now (body req)
         in Call_createMessage payload #
            (case createMessage_result sv payload of
               Inl t \<Rightarrow> [Respond 500 (Json_error ''Failed to add message to chat'')]
             | Inr (Inl e) \<Rightarrow> [Respond 500 (Json_error e)]
             | Inr (Inr m) \<Rightarrow>
                 (case message_id m of
                    None \<Rightarrow> [Respond 500 (Json_error ''Message ID is undefined'')]
                  | Some mid \<Rightarrow>
                      (if mid = [] then [Respond 500 (Json_error ''Message ID is undefined'')]
                       else Call_addMessageToChat chatId mid #
                         (case addMessageToChat_result sv chatId mid of
                            Inl t \<Rightarrow>
                              [Respond 500 (Json_error ''Failed to add message to chat'')]
                          | Inr (Inl e) \<Rightarrow> [Respond 500 (Json_error e)]
                          | Inr (Inr updatedChat) \<Rightarrow>
                              populate_then sv chatId ''Failed to add message to chat''
                                (\<lambda>populatedChat.
                                   [EmitTo chatId ''chatUpdate'' populatedChat,
                                    Respond 200 (Json_populated populatedChat)])))))))"

definition getChatRoute :: "services \<Rightarrow> request \<Rightarrow> effect list" where
  "getChatRoute sv req =
     (let chatId = map_of (params req) ''chatId''
      in if \<not> defined_nonempty chatId
         then [Respond 400 (Json_error ''Chat ID is required'')]
         else Call_getChat chatId #
           (case getChat_result sv chatId of
              Inl t \<Rightarrow> [Respond 500 (Json_error ''Failed to retrieve chat'')]
            | Inr (Inl e) \<Rightarrow> [Respond 500 (Json_error e)]
            | Inr (Inr c) \<Rightarrow>
                populate_then sv (Some (chat_id c)) ''Failed to retrieve chat''
                  (\<lambda>populatedChat. [Respond 200 (Json_populated populatedChat)])))"

text \<open>
  \<^verbatim>\<open>Promise.all(chats.map(async chat => ...))\<close>: \<^verbatim>\<open>populateDocument\<close> is called for every
  chat; the whole rejects when one of the callbacks throws, with what that one threw
  (the first in the order of the chats, when several do), and resolves to the list of
  the populated chats otherwise.
\<close>

definition populate_one :: "services \<Rightarrow> chat \<Rightarrow> populated promise" where
  "populate_one sv c =
     (case populateDocument_result sv (Some (chat_id c)) ''chat'' of
        Inl t \<Rightarrow> Inl t
      | Inr populated \<Rightarrow>
          (if has_error populated then Inl (ErrorObj ''Failed populating chats'')
           else Inr populated))"

fun promise_all :: "'a promise list \<Rightarrow> 'a list promise" where
  "promise_all [] = Inr []"
| "promise_all (p # ps) =
     (case p of
        Inl t \<Rightarrow> Inl t
      | Inr v \<Rightarrow> (case promise_all ps of Inl t \<Rightarrow> Inl t | Inr vs \<Rightarrow> Inr (v # vs)))"

definition getChatsByUserRoute :: "services \<Rightarrow> request \<Rightarrow> effect list" where
  "getChatsByUserRoute sv req =
     (let username = map_of (params req) ''username''
      in if \<not> defined_nonempty username
         then [Respond 400 (Json_error ''Username parameter is required'')]
         else Call_getChatsByParticipants [username] #
           (case getChatsByParticipants_result sv [username] of
              Inl t \<Rightarrow> [Respond 500 (Plain_text (''Error retrieving chat: '' @ message_or_String t))]
            | Inr cs \<Rightarrow>
                map (\<lambda>c. Call_populateDocument (Some (chat_id c)) ''chat'') cs @
                (case promise_all (map (populate_one sv) cs) of
                   Inl t \<Rightarrow>
                     [Respond 500 (Plain_text (''Error retrieving chat: '' @ message_or_String t))]
                 | Inr populatedChats \<Rightarrow>
                     [Respond 200 (Json_populated_list populatedChats)])))"

definition addParticipantToChatRoute :: "services \<Rightarrow> request \<Rightarrow> effect list" where
  "addParticipantToChatRoute sv req =
     (if \<not> isAddParticipantRequestValid req
      then [Respond 400 (Json_error ''Invalid request body'')]
      else
        (let chatId = map_of (params req) ''chatId'';
             participantId = get_prop (body req) ''participantId''
         in Call_addParticipantToChat chatId participantId #
            (case addParticipantToChat_result sv chatId participantId of
               Inl t \<Rightarrow> [Respond 500 (Json_error ''Failed to add participant to chat'')]
             | Inr (Inl e) \<Rightarrow> [Respond 500 (Json_error e)]
             | Inr (Inr updatedChat) \<Rightarrow>
                 populate_then sv chatId ''Failed to add participant to chat''
                   (\<lambda>populatedChat.
                      [EmitTo chatId ''chatUpdate'' populatedChat,
                       Respond 200 (Json_chat updatedChat)]))))"

text \<open>
  The connection handler registers two listeners on each connection. An event of the
  connection runs the listeners registered under its name, with the event's argument;
  \<^verbatim>\<open>conn.join(room)\<close> and \<^verbatim>\<open>conn.leave(room)\<close> are the two ways a listener changes the rooms
  the connection is in.
\<close>

datatype room_op = Join string | Leave string

definition on_joinChat :: "param \<Rightarrow> room_op list" where
  "on_joinChat chatID =
     (case chatID of
        None \<Rightarrow> []
      | Some c \<Rightarrow> (if c \<noteq> [] then [Join c] else []))"

definition on_leaveChat :: "param \<Rightarrow> room_op list" where
  "on_leaveChat chatID =
     (case chatID of
        None \<Rightarrow> []
      | Some c \<Rightarrow> (if c \<noteq> [] then [Leave c] else []))"

definition connection_listeners :: "(string \<times> (param \<Rightarrow> room_op list)) list" where
  "connection_listeners = [(''joinChat'', on_joinChat), (''leaveChat'', on_leaveChat)]"

definition on_event :: "string \<Rightarrow> param \<Rightarrow> room_op list" where
  "on_event name arg =
     concat (map (\<lambda>(n, listener). if n = name then listener arg else []) connection_listeners)"

fun apply_room_op :: "room_op \<Rightarrow> string set \<Rightarrow> string set" where
  "apply_room_op (Join r) rooms = insert r rooms"
| "apply_room_op (Leave r) rooms = rooms - {r}"

definition rooms_after :: "string set \<Rightarrow> string \<Rightarrow> param \<Rightarrow> string set" where
  "rooms_after rooms name arg = fold apply_room_op (on_event name arg) rooms"

section \<open>The direct-message hook\<close>

text \<open>
  On the client a chat carries its messages, not their identifiers, and a message may
  carry the user who wrote it. \<^verbatim>\<open>_id\<close> is optional in the client's types. Reading
  \<^verbatim>\<open>messages[0]\<close> of an empty array gives \<^verbatim>\<open>undefined\<close>, which the hook then stores in a
  message list: an entry of a message list is \<open>None\<close> for \<^verbatim>\<open>undefined\<close>.
\<close>

record user =
  user_id :: "string option"
  username :: string

record client_message = message_doc +
  message_user :: "(string option \<times> string) option"

record client_chat =
  client_chat_id :: "string option"
  client_chat_participants :: "string list"
  client_chat_messages :: "client_message option list"

record chat_update_payload =
  update_chat :: client_chat
  update_type :: string

record direct_message_state =
  showCreatePanel :: bool
  chatToCreate :: string
  selectedChat :: "client_chat option"
  chats :: "client_chat list"
  newMessage :: string

text \<open>\<^verbatim>\<open>xs[0]\<close>\<close>

fun first_element :: "'a option list \<Rightarrow> 'a option" where
  "first_element [] = None"
| "first_element (x # xs) = x"

definition handleChatUpdate ::
  "direct_message_state \<Rightarrow> chat_update_payload \<Rightarrow> direct_message_state" where
  "handleChatUpdate st chatUpdate =
     (if update_type chatUpdate = ''created''
      then st\<lparr>chats := chats st @ [update_chat chatUpdate]\<rparr>
      else if update_type chatUpdate = ''newMessage''
      then
        (case selectedChat st of
           None \<Rightarrow> st
         | Some sc \<Rightarrow>
             (if client_chat_id sc = client_chat_id (update_chat chatUpdate)
              then st\<lparr>selectedChat :=
                        Some (sc\<lparr>client_chat_messages :=
                                    client_chat_messages sc @
                                    [first_element
                                       (client_chat_messages (update_chat chatUpdate))]\<rparr>)\<rparr>
              else st))
      else st)"

text \<open>
  The listener is registered with \<^verbatim>\<open>socket.on('chatUpdate', handleChatUpdate)\<close>, so it is
  called with whatever was emitted under that name. The type \<^verbatim>\<open>ChatUpdatePayload\<close> of its
  parameter is erased at run time: an object with a \<^verbatim>\<open>type\<close> and a \<^verbatim>\<open>chat\<close> property is
  handled as above; the handlers of the chat controller emit the populated document
  itself, which has neither property. On such a document \<^verbatim>\<open>chatUpdate.type\<close> is
  \<^verbatim>\<open>undefined\<close>, equal to neither \<^verbatim>\<open>'created'\<close> nor \<^verbatim>\<open>'newMessage'\<close>, and no state is set (on
  \<^verbatim>\<open>null\<close> reading \<^verbatim>\<open>type\<close> throws, and no state is set either).
\<close>

datatype chat_update_event = Typed_update chat_update_payload | Bare_document populated

text \<open>What an emission of the controller delivers to the \<^verbatim>\<open>'chatUpdate'\<close> listener.\<close>

fun received :: "effect \<Rightarrow> chat_update_event option" where
  "received (Emit ev x) = (if ev = ''chatUpdate'' then Some (Bare_document x) else None)"
| "received (EmitTo room ev x) = (if ev = ''chatUpdate'' then Some (Bare_document x) else None)"
| "received e = None"

definition on_chatUpdate ::
  "direct_message_state \<Rightarrow> chat_update_event \<Rightarrow> direct_message_state" where
  "on_chatUpdate st ev =
     (case ev of
        Typed_update chatUpdate \<Rightarrow> handleChatUpdate st chatUpdate
      | Bare_document x \<Rightarrow> st)"

text \<open>
  \<^verbatim>\<open>String.prototype.trim\<close> removes white space and line terminators from both ends. Of
  these, the ones a \<open>char\<close> can hold are tab, line feed, vertical tab, form feed, carriage
  return, space and no-break space.
\<close>

definition is_whitespace :: "char \<Rightarrow> bool" where
  "is_whitespace c \<longleftrightarrow> (of_char c :: nat) \<in> {9, 10, 11, 12, 13, 32, 160}"

definition trim :: "string \<Rightarrow> string" where
  "trim s = rev (dropWhile is_whitespace (rev (dropWhile is_whitespace s)))"

record message_payload =
  payload_chat :: string
  payload_msgFrom :: string
  payload_msg :: string
  payload_msgDateTime :: nat

datatype api_call = SendMessage message_payload string

text \<open>
  \<^verbatim>\<open>handleSendMessage\<close>, with \<open>now\<close> the time of \<^verbatim>\<open>new Date()\<close> and \<open>sendMessage_result\<close>
  what awaiting \<^verbatim>\<open>sendMessage\<close> gives. It returns the API calls made, the state of the hook
  afterwards, and what the handler's promise rejected with, if it did: the handler has
  no \<^verbatim>\<open>catch\<close>.
\<close>

definition handleSendMessage ::
  "user \<Rightarrow> nat \<Rightarrow> (message_payload \<Rightarrow> string \<Rightarrow> client_message promise) \<Rightarrow>
   direct_message_state \<Rightarrow> api_call list \<times> direct_message_state \<times> thrown option" where
  "handleSendMessage u now sendMessage_result st =
     (case (selectedChat st, user_id u) of
        (Some sc, Some uid) \<Rightarrow>
          (case client_chat_id sc of
             Some cid \<Rightarrow>
               (if trim (newMessage st) = [] \<or> cid = [] \<or> uid = [] then ([], st, None)
                else
                  (let payload = \<lparr>payload_chat = cid, payload_msgFrom = uid,
                                   payload_msg = trim (newMessage st),
                                   payload_msgDateTime = now\<rparr>
                   in (case sendMessage_result payload cid of
                         Inl t \<Rightarrow> ([SendMessage payload cid], st, Some t)
                       | Inr m \<Rightarrow>
                           ([SendMessage payload cid],
                            st\<lparr>selectedChat :=
                                 Some (sc\<lparr>client_chat_messages :=
                                             client_chat_messages sc @
                                             [Some (m\<lparr>message_user :=
                                                        Some (Some uid, username u)\<rparr>)]\<rparr>),
                               newMessage := []\<rparr>,
                            None))))
           | None \<Rightarrow> ([], st, None))
      | _ \<Rightarrow> ([], st, None))"

section \<open>The game-page hook\<close>

record game_instance =
  status :: string

record game_page_state =
  gameState :: "game_instance option"
  joinedGameID :: "string option"
  error :: "string option"

datatype page_effect =
    Api_leaveGame string string
  | Socket_emit string string
  | Navigate string

text \<open>
  \<^verbatim>\<open>handleLeaveGame\<close>, with \<open>uid\<close> the \<^verbatim>\<open>user._id\<close>, \<open>socket\<close> telling whether the socket is
  there, and \<open>leaveGame_result\<close> what awaiting \<^verbatim>\<open>leaveGame\<close> gives. It returns what the handler
  did, in order, and the state of the hook afterwards.
\<close>

definition handleLeaveGame ::
  "string option \<Rightarrow> bool \<Rightarrow> (string \<Rightarrow> string \<Rightarrow> unit promise) \<Rightarrow>
   game_page_state \<Rightarrow> page_effect list \<times> game_page_state" where
  "handleLeaveGame uid socket leaveGame_result st =
     (let (done, st1) =
        (case (joinedGameID st, gameState st) of
           (Some gid, Some g) \<Rightarrow>
             (if gid \<noteq> [] \<and> \<not> (status g = ''OVER'')
              then
                (let userId = (case uid of None \<Rightarrow> [] | Some i \<Rightarrow> i)
                 in (case leaveGame_result gid userId of
                       Inr _ \<Rightarrow>
                         (Api_leaveGame gid userId #
                          (if socket then [Socket_emit ''leaveGame'' gid] else []),
                          st)
                     | Inl t \<Rightarrow>
                         ([Api_leaveGame gid userId],
                          st\<lparr>error := Some ''Failed to leave the game.''\<rparr>)))
              else ([], st))
         | _ \<Rightarrow> ([], st))
      in (done @ [Navigate ''/games''],
          st1\<lparr>gameState := None, joinedGameID := None, error := None\<rparr>))"

section \<open>Notions used in the statements\<close>

text \<open>The next \<open>n\<close> operations on the store do not throw.\<close>

definition succeeds :: "nat \<Rightarrow> store \<Rightarrow> bool" where
  "succeeds n d \<longleftrightarrow> list_all (\<lambda>f. f = None) (take n (faults d))"

text \<open>The messages a payload carries: none when the field is absent.\<close>

definition carried_messages :: "create_chat_payload \<Rightarrow> message list" where
  "carried_messages p = (case payload_messages p of None \<Rightarrow> [] | Some ms \<Rightarrow> ms)"

text \<open>The HTTP responses a handler sent, in order.\<close>

fun responses :: "effect list \<Rightarrow> (nat \<times> res_body) list" where
  "responses [] = []"
| "responses (Respond n b # es) = (n, b) # responses es"
| "responses (e # es) = responses es"

text \<open>
  The condition of \<^verbatim>\<open>handleLeaveGame\<close>: \<^verbatim>\<open>joinedGameID\<close> and \<^verbatim>\<open>gameState\<close> are both set (a
  joined game identifier is never the empty string) and the status is not \<^verbatim>\<open>'OVER'\<close>.
\<close>

definition game_joined_not_over :: "game_page_state \<Rightarrow> bool" where
  "game_joined_not_over st \<longleftrightarrow>
     (case (joinedGameID st, gameState st) of
        (Some gid, Some g) \<Rightarrow> gid \<noteq> [] \<and> status g \<noteq> ''OVER''
      | _ \<Rightarrow> False)"

subsection \<open>Concrete inputs\<close>

definition example_chat :: chat where
  "example_chat = \<lparr>chat_id = ''c1'', participants = [''alice'', ''bob''], messages = []\<rparr>"

definition example_store :: store where
  "example_store =
     \<lparr>chat_collection = [example_chat], message_collection = [], next_id = 0, faults = []\<rparr>"

definition example_message :: message where
  "example_message = \<lparr>msg = ''hello'', msgFrom = ''alice'', msgDateTime = 7, msgType = ''direct''\<rparr>"

definition example_payload :: create_chat_payload where
  "example_payload =
     \<lparr>payload_participants = [''alice'', ''carol''], payload_messages = Some [example_message]\<rparr>"

definition example_populated :: populated_chat where
  "example_populated =
     \<lparr>populated_id = ''c1'', populated_participants = [''alice'', ''bob''],
      populated_messages = []\<rparr>"

definition example_services :: services where
  "example_services =
     \<lparr>saveChat_result = (\<lambda>b. Inr (Inr example_chat)),
      createMessage_result =
        (\<lambda>b. Inr (Inr \<lparr>message_id = Some ''m1'', message_body = example_message\<rparr>)),
      addMessageToChat_result = (\<lambda>c m. Inr (Inr (example_chat\<lparr>messages := [m]\<rparr>))),
      getChat_result = (\<lambda>c. Inr (Inr example_chat)),
      getChatsByParticipants_result = (\<lambda>p. Inr [example_chat]),
      addParticipantToChat_result = (\<lambda>c u. Inr (Inr example_chat)),
      populateDocument_result = (\<lambda>i k. Inr (Pop_chat example_populated))\<rparr>"

definition failing_populate_services :: services where
  "failing_populate_services =
     example_services\<lparr>populateDocument_result := (\<lambda>i k. Inr (Pop_error ''Chat not found''))\<rparr>"

definition valid_request :: request where
  "valid_request =
     \<lparr>body = JObj [(''participants'', JArr [JStr ''alice'', JStr ''bob'']),
                   (''msg'', JStr ''hello''), (''msgFrom'', JStr ''alice''),
                   (''participantId'', JStr ''carol'')],
      params = [(''chatId'', ''c1''), (''username'', ''alice'')]\<rparr>"

definition invalid_request :: request where
  "invalid_request = \<lparr>body = JObj [(''participants'', JArr [])], params = []\<rparr>"

definition example_user :: user where
  "example_user = \<lparr>user_id = Some ''u1'', username = ''alice''\<rparr>"

definition first_message :: client_message where
  "first_message =
     \<lparr>message_id = Some ''m1'', message_body = example_message, message_user = None\<rparr>"

definition second_message :: client_message where
  "second_message =
     \<lparr>message_id = Some ''m2'',
      message_body = example_message\<lparr>msg := ''how are you'', msgDateTime := 9\<rparr>,
      message_user = None\<rparr>"

definition example_client_chat :: client_chat where
  "example_client_chat =
     \<lparr>client_chat_id = Some ''c1'', client_chat_participants = [''alice'', ''bob''],
      client_chat_messages = [Some first_message]\<rparr>"

definition example_direct_message_state :: direct_message_state where
  "example_direct_message_state =
     \<lparr>showCreatePanel = False, chatToCreate = [], selectedChat = Some example_client_chat,
      chats = [example_client_chat], newMessage = ''  hi there ''\<rparr>"

definition example_game_page_state :: game_page_state where
  "example_game_page_state =
     \<lparr>gameState = Some \<lparr>status = ''IN_PROGRESS''\<rparr>, joinedGameID = Some ''g1'',
      error = None\<rparr>"

definition failing_leaveGame :: "string \<Rightarrow> string \<Rightarrow> unit promise" where
  "failing_leaveGame gid uid = Inl (ErrorObj ''Network Error'')"

definition working_leaveGame :: "string \<Rightarrow> string \<Rightarrow> unit promise" where
  "working_leaveGame gid uid = Inr ()"

definition echo_sendMessage :: "message_payload \<Rightarrow> string \<Rightarrow> client_message promise" where
  "echo_sendMessage p cid =
     Inr \<lparr>message_id = Some ''m9'',
          message_body = \<lparr>msg = payload_msg p, msgFrom = payload_msgFrom p,
                          msgDateTime = payload_msgDateTime p, msgType = ''direct''\<rparr>,
          message_user = None\<rparr>"




definition unreachable_store :: store where
  "unreachable_store = example_store\<lparr>faults := [Some (ErrorObj ''connection lost'')]\<rparr>"

text \<open>Services whose lookup is the chat service's own, run on the store \<open>d\<close>.\<close>

fun defined_names :: "param list \<Rightarrow> string list" where
  "defined_names [] = []"
| "defined_names (None # ps) = defined_names ps"
| "defined_names (Some n # ps) = n # defined_names ps"

definition store_services :: "store \<Rightarrow> services" where
  "store_services d =
     example_services
       \<lparr>getChatsByParticipants_result :=
          (\<lambda>p. fst (getChatsByParticipants d (defined_names p)))\<rparr>"

section \<open>The chat service: theorems\<close>

subsection \<open>Creating a chat\<close>

lemma new_message_docs_body: "map message_body (new_message_docs n ms) = ms"
  by (induction ms arbitrary: n) auto

lemma ids_toString_new:
  "\<exists>ids. ids_toString (new_message_docs n ms) = Inr ids \<and>
         map message_id (new_message_docs n ms) = map Some ids"
proof (induction ms arbitrary: n)
  case Nil
  show ?case by simp
next
  case (Cons m ms)
  from Cons [of "Suc n"] obtain ids where
    "ids_toString (new_message_docs (Suc n) ms) = Inr ids"
    "map message_id (new_message_docs (Suc n) ms) = map Some ids" by blast
  then show ?case by simp
qed

lemma ids_toString_Inr:
  "ids_toString docs = Inr ids \<Longrightarrow> map message_id docs = map Some ids"
  by (induction docs arbitrary: ids) (auto split: option.splits sum.splits)

lemma insertMany_result:
  "MessageModel_insertMany d ms = (Inr saved, d1) \<Longrightarrow>
     message_collection d1 = message_collection d @ saved \<and> map message_body saved = ms \<and>
     chat_collection d1 = chat_collection d"
  by (auto simp: MessageModel_insertMany_def next_fault_def Let_def new_message_docs_body
      split: option.splits list.splits)

lemma ChatModel_save_result:
  "ChatModel_save d ps ms = (Inr c, d1) \<Longrightarrow>
     participants c = ps \<and> messages c = ms \<and> chat_collection d1 = chat_collection d @ [c] \<and>
     message_collection d1 = message_collection d"
  by (auto simp: ChatModel_save_def next_fault_def Let_def split: option.splits list.splits)

lemma saveChat_result:
  assumes "saveChat d p = (Inr (Inr c), d')"
  shows "participants c = payload_participants p \<and>
     chat_collection d' = chat_collection d @ [c] \<and>
     (\<exists>saved. message_collection d' = message_collection d @ saved \<and>
        map message_body saved = carried_messages p \<and>
        map message_id saved = map Some (messages c))"
proof (cases "payload_messages p")
  case None
  with assms show ?thesis
    by (auto simp: saveChat_def try_catch_def carried_messages_def
        split: sum.splits prod.splits dest!: ChatModel_save_result)
next
  case (Some ms)
  show ?thesis
  proof (cases ms)
    case Nil
    with Some assms show ?thesis
      by (auto simp: saveChat_def try_catch_def carried_messages_def
          split: sum.splits prod.splits dest!: ChatModel_save_result)
  next
    case (Cons m ms')
    with Some assms show ?thesis
      by (auto simp: saveChat_def try_catch_def carried_messages_def
          split: sum.splits prod.splits
          dest!: ChatModel_save_result insertMany_result ids_toString_Inr)
  qed
qed

lemma no_fault_cases:
  "succeeds 2 d \<Longrightarrow>
     (faults d = [] \<or> (\<exists>fs. faults d = None # fs)) \<and>
     (tl (faults d) = [] \<or> (\<exists>fs. tl (faults d) = None # fs))"
  by (cases "faults d"; cases "tl (faults d)") (auto simp: succeeds_def)

lemma insertMany_ok:
  "faults d = [] \<or> (\<exists>fs. faults d = None # fs) \<Longrightarrow>
   \<exists>saved d1 ids. MessageModel_insertMany d ms = (Inr saved, d1) \<and>
      faults d1 = tl (faults d) \<and> ids_toString saved = Inr ids"
  using ids_toString_new [of "next_id d" ms]
  by (auto simp: MessageModel_insertMany_def next_fault_def Let_def split: list.splits)

lemma ChatModel_save_ok:
  "faults d = [] \<or> (\<exists>fs. faults d = None # fs) \<Longrightarrow>
   \<exists>c d1. ChatModel_save d ps ms = (Inr c, d1)"
  by (auto simp: ChatModel_save_def next_fault_def Let_def split: list.splits)

lemma saveChat_ok:
  assumes "succeeds 2 d"
  shows "\<exists>c d'. saveChat d p = (Inr (Inr c), d')"
proof -
  from no_fault_cases [OF assms]
  have first: "faults d = [] \<or> (\<exists>fs. faults d = None # fs)"
    and second: "tl (faults d) = [] \<or> (\<exists>fs. tl (faults d) = None # fs)"
    by auto
  show ?thesis
  proof (cases "\<exists>m ms. payload_messages p = Some (m # ms)")
    case True
    then obtain m ms where pm: "payload_messages p = Some (m # ms)" by blast
    from insertMany_ok [OF first, of "m # ms"] obtain saved d1 ids where
      ins: "MessageModel_insertMany d (m # ms) = (Inr saved, d1)" "faults d1 = tl (faults d)"
        "ids_toString saved = Inr ids" by blast
    have "faults d1 = [] \<or> (\<exists>fs. faults d1 = None # fs)" using second ins(2) by simp
    from ChatModel_save_ok [OF this, of "payload_participants p" ids] obtain c d2 where
      "ChatModel_save d1 (payload_participants p) ids = (Inr c, d2)" by blast
    with pm ins show ?thesis by (simp add: saveChat_def try_catch_def)
  next
    case False
    from ChatModel_save_ok [OF first, of "payload_participants p" "[]"] obtain c d2 where
      sv: "ChatModel_save d (payload_participants p) [] = (Inr c, d2)" by blast
    from False have "payload_messages p = None \<or> payload_messages p = Some []"
      by (cases "payload_messages p"; cases "the (payload_messages p)") auto
    with sv show ?thesis by (auto simp: saveChat_def try_catch_def)
  qed
qed

text \<open>
  C4. When no operation of the store throws, \<^verbatim>\<open>saveChat\<close> resolves to a chat. Whenever it
  resolves to a chat \<open>c\<close>, that chat is the one document added to the chat collection, its
  participants are the payload's, and its message list is the list of the identifiers
  under which the payload's messages were added to the message collection, in the
  payload's order; with no message in the payload, the message list is empty.
\<close>

theorem saveChat_creates:
  "(succeeds 2 d \<longrightarrow> (\<exists>c d'. saveChat d p = (Inr (Inr c), d'))) \<and>
   (\<forall>c d'. saveChat d p = (Inr (Inr c), d') \<longrightarrow>
      participants c = payload_participants p \<and>
      chat_collection d' = chat_collection d @ [c] \<and>
      (\<exists>saved. message_collection d' = message_collection d @ saved \<and>
         map message_body saved = carried_messages p \<and>
         map message_id saved = map Some (messages c)) \<and>
      (carried_messages p = [] \<longrightarrow> messages c = []))"
proof -
  have "messages c = []"
    if "saveChat d p = (Inr (Inr c), d')" "carried_messages p = []" for c d'
  proof -
    from saveChat_result [OF that(1)] obtain saved :: "message_doc list" where
      "map message_body saved = carried_messages p"
      "map message_id saved = map Some (messages c)"
      by blast
    with that(2) show ?thesis by simp
  qed
  then show ?thesis using saveChat_ok saveChat_result by blast
qed

theorem saveChat_creates_witness:
  "succeeds 2 example_store \<and>
   saveChat example_store example_payload =
     (Inr (Inr \<lparr>chat_id = ''oi'', participants = [''alice'', ''carol''], messages = [''o'']\<rparr>),
      \<lparr>chat_collection =
         [example_chat,
          \<lparr>chat_id = ''oi'', participants = [''alice'', ''carol''], messages = [''o'']\<rparr>],
       message_collection = [\<lparr>message_id = Some ''o'', message_body = example_message\<rparr>],
       next_id = 2, faults = []\<rparr>) \<and>
   participants \<lparr>chat_id = ''oi'', participants = [''alice'', ''carol''], messages = [''o'']\<rparr> =
     payload_participants example_payload"
proof -
  have ok: "succeeds 2 example_store"
    by (simp add: succeeds_def example_store_def)
  have run: "saveChat example_store example_payload =
     (Inr (Inr \<lparr>chat_id = ''oi'', participants = [''alice'', ''carol''], messages = [''o'']\<rparr>),
      \<lparr>chat_collection =
         [example_chat,
          \<lparr>chat_id = ''oi'', participants = [''alice'', ''carol''], messages = [''o'']\<rparr>],
       message_collection = [\<lparr>message_id = Some ''o'', message_body = example_message\<rparr>],
       next_id = 2, faults = []\<rparr>)"
    by (simp add: example_store_def example_payload_def saveChat_def try_catch_def
        MessageModel_insertMany_def ChatModel_save_def next_fault_def objectId_def Let_def)
  from saveChat_creates [of example_store example_payload] run
  have "participants \<lparr>chat_id = ''oi'', participants = [''alice'', ''carol''],
          messages = [''o'']\<rparr> = payload_participants example_payload"
    by blast
  with ok run show ?thesis by blast
qed

subsection \<open>Adding a participant\<close>

lemma find_update_first:
  "find (\<lambda>c. chat_id c = cid) cs = Some c \<Longrightarrow>
   find (\<lambda>c. chat_id c = cid) (update_first cid u cs) = Some (apply_update u c)"
proof (induction cs)
  case Nil
  then show ?case by simp
next
  case (Cons a cs)
  have "chat_id (apply_update u a) = chat_id a" by (cases u) auto
  with Cons show ?case by (auto split: if_splits)
qed

lemma update_first_twice:
  "update_first cid (AddToSet_participants uid)
     (update_first cid (AddToSet_participants uid) cs) =
   update_first cid (AddToSet_participants uid) cs"
  by (induction cs) auto

lemma update_first_member:
  "find (\<lambda>c. chat_id c = cid) cs = Some c \<Longrightarrow> uid \<in> set (participants c) \<Longrightarrow>
   update_first cid (AddToSet_participants uid) cs = cs"
  by (induction cs) (auto split: if_splits)

lemma findByIdAndUpdate_ok:
  "faults d = [] \<or> (\<exists>fs. faults d = None # fs) \<Longrightarrow>
   ChatModel_findByIdAndUpdate d cid u =
     (case find (\<lambda>c. chat_id c = cid) (chat_collection d) of
        None \<Rightarrow> (Inr None, d\<lparr>faults := tl (faults d)\<rparr>)
      | Some c \<Rightarrow>
          (Inr (Some (apply_update u c)),
           d\<lparr>faults := tl (faults d),
             chat_collection := update_first cid u (chat_collection d)\<rparr>))"
  by (auto simp: ChatModel_findByIdAndUpdate_def next_fault_def
      split: option.splits list.splits)

lemma addParticipantToChat_ok:
  "faults d = [] \<or> (\<exists>fs. faults d = None # fs) \<Longrightarrow>
   addParticipantToChat d cid uid =
     (case find (\<lambda>c. chat_id c = cid) (chat_collection d) of
        None \<Rightarrow> (Inr (Inl ''Chat not found''), d\<lparr>faults := tl (faults d)\<rparr>)
      | Some c \<Rightarrow>
          (Inr (Inr (apply_update (AddToSet_participants uid) c)),
           d\<lparr>faults := tl (faults d),
             chat_collection :=
               update_first cid (AddToSet_participants uid) (chat_collection d)\<rparr>))"
  by (simp add: addParticipantToChat_def findByIdAndUpdate_ok try_catch_def
      split: option.splits)

text \<open>
  C8. When the store does not throw: adding a user who is already a participant of the
  chat resolves to the chat as it was and leaves the chat collection as it was; and
  adding the same user a second time resolves to what the first call resolved to and
  leaves the chat collection as the first call left it.
\<close>

theorem addParticipantToChat_set_semantics:
  assumes "succeeds 2 d"
  shows "(\<forall>c. find (\<lambda>c. chat_id c = cid) (chat_collection d) = Some c \<and>
              uid \<in> set (participants c) \<longrightarrow>
            fst (addParticipantToChat d cid uid) = Inr (Inr c) \<and>
            chat_collection (snd (addParticipantToChat d cid uid)) = chat_collection d) \<and>
         (let once = addParticipantToChat d cid uid;
              twice = addParticipantToChat (snd once) cid uid
          in fst twice = fst once \<and> chat_collection (snd twice) = chat_collection (snd once))"
proof -
  from no_fault_cases [OF assms]
  have first: "faults d = [] \<or> (\<exists>fs. faults d = None # fs)"
    and second: "tl (faults d) = [] \<or> (\<exists>fs. tl (faults d) = None # fs)"
    by auto
  note once = addParticipantToChat_ok [OF first, of cid uid]
  show ?thesis
  proof (cases "find (\<lambda>c. chat_id c = cid) (chat_collection d)")
    case None
    let ?d1 = "d\<lparr>faults := tl (faults d)\<rparr>"
    have "faults ?d1 = [] \<or> (\<exists>fs. faults ?d1 = None # fs)" using second by simp
    from addParticipantToChat_ok [OF this, of cid uid] once None
    show ?thesis by (simp add: Let_def)
  next
    case (Some c)
    let ?u = "AddToSet_participants uid"
    let ?d1 = "d\<lparr>faults := tl (faults d),
                 chat_collection := update_first cid ?u (chat_collection d)\<rparr>"
    have "faults ?d1 = [] \<or> (\<exists>fs. faults ?d1 = None # fs)" using second by simp
    note twice = addParticipantToChat_ok [OF this, of cid uid]
    have found: "find (\<lambda>c. chat_id c = cid) (chat_collection ?d1) = Some (apply_update ?u c)"
      using find_update_first [OF Some] by simp
    have same: "uid \<in> set (participants c) \<Longrightarrow>
        update_first cid ?u (chat_collection d) = chat_collection d"
      using update_first_member [OF Some] by simp
    show ?thesis
      using once twice found Some same
      by (simp add: Let_def update_first_twice del: apply_update.simps) auto
  qed
qed

theorem addParticipantToChat_set_semantics_witness:
  "succeeds 2 example_store \<and>
   find (\<lambda>c. chat_id c = ''c1'') (chat_collection example_store) = Some example_chat \<and>
   ''bob'' \<in> set (participants example_chat) \<and>
   fst (addParticipantToChat example_store ''c1'' ''bob'') = Inr (Inr example_chat) \<and>
   chat_collection (snd (addParticipantToChat example_store ''c1'' ''bob'')) =
     chat_collection example_store"
proof -
  have ok: "succeeds 2 example_store"
    by (simp add: succeeds_def example_store_def)
  have found:
    "find (\<lambda>c. chat_id c = ''c1'') (chat_collection example_store) = Some example_chat"
    by (simp add: example_store_def example_chat_def)
  have member: "''bob'' \<in> set (participants example_chat)"
    by (simp add: example_chat_def)
  from addParticipantToChat_set_semantics [OF ok, of "''c1''" "''bob''"] found member
  have "fst (addParticipantToChat example_store ''c1'' ''bob'') = Inr (Inr example_chat) \<and>
        chat_collection (snd (addParticipantToChat example_store ''c1'' ''bob'')) =
          chat_collection example_store"
    by blast
  with ok found member show ?thesis by blast
qed

subsection \<open>Looking chats up by participants\<close>

text \<open>
  C9. For every store and every list of names, \<^verbatim>\<open>getChatsByParticipants\<close> resolves (it
  does not reject) to a list of chats; the list is empty when the lookup throws, and
  when no chat of the collection has all the given names among its participants.
\<close>

theorem getChatsByParticipants_total:
  "\<exists>cs d'. getChatsByParticipants d p = (Inr cs, d') \<and>
     ((\<exists>t fs. faults d = Some t # fs) \<longrightarrow> cs = []) \<and>
     ((\<forall>c \<in> set (chat_collection d). \<exists>u \<in> set p. u \<notin> set (participants c)) \<longrightarrow> cs = [])"
  by (auto simp: getChatsByParticipants_def try_catch_def ChatModel_find_all_def next_fault_def
      matches_all_def list_all_iff filter_empty_conv split: list.splits option.splits)

theorem getChatsByParticipants_total_witness:
  "list_all (\<lambda>c. \<exists>u \<in> set [''alice'', ''carol'']. u \<notin> set (participants c))
     (chat_collection example_store) \<and>
   fst (getChatsByParticipants example_store [''alice'', ''carol'']) = Inr [] \<and>
   faults (example_store\<lparr>faults := [Some (ErrorObj ''connection lost'')]\<rparr>) =
     [Some (ErrorObj ''connection lost'')] \<and>
   fst (getChatsByParticipants
          (example_store\<lparr>faults := [Some (ErrorObj ''connection lost'')]\<rparr>) [''alice'']) =
     Inr []"
proof -
  let ?down = "example_store\<lparr>faults := [Some (ErrorObj ''connection lost'')]\<rparr>"
  have nobody: "list_all (\<lambda>c. \<exists>u \<in> set [''alice'', ''carol'']. u \<notin> set (participants c))
      (chat_collection example_store)"
    by (simp add: example_store_def example_chat_def)
  have script: "faults ?down = [Some (ErrorObj ''connection lost'')]"
    by simp
  from getChatsByParticipants_total [of example_store "[''alice'', ''carol'']"] nobody
  have none: "fst (getChatsByParticipants example_store [''alice'', ''carol'']) = Inr []"
    by (auto simp: list_all_iff)
  from getChatsByParticipants_total [of ?down "[''alice'']"] script
  have absorbed: "fst (getChatsByParticipants ?down [''alice'']) = Inr []"
    by auto
  from nobody none script absorbed show ?thesis by blast
qed

section \<open>The chat controller: theorems\<close>

subsection \<open>Validation\<close>




subsection \<open>Emissions\<close>

text \<open>
  C2, as the claim states it, fails: \<^verbatim>\<open>createChatRoute\<close> emits \<^verbatim>\<open>'chatUpdate'\<close> with
  \<^verbatim>\<open>socket.emit\<close>, to every connected client, not to a room. On a valid request whose chat
  is saved and populated, the handler does this, in this order:
\<close>

theorem createChatRoute_emits_to_all:
  "createChatRoute example_services valid_request =
     [Call_saveChat (body valid_request),
      Call_populateDocument (Some ''c1'') ''chat'',
      Emit ''chatUpdate'' (Pop_chat example_populated),
      Respond 200 (Json_populated (Pop_chat example_populated))]"
  by (simp add: createChatRoute_def populate_then_def isCreateChatRequestValid_def
      valid_request_def example_services_def example_chat_def)

text \<open>
  C2, amended. A handler emits at most once, and always the event \<^verbatim>\<open>'chatUpdate'\<close>.
  \<^verbatim>\<open>addMessageToChatRoute\<close> and \<^verbatim>\<open>addParticipantToChatRoute\<close> emit to the room named by the
  \<^verbatim>\<open>chatId\<close> parameter of the request, which is the chat the handler has just asked the
  service to change; \<^verbatim>\<open>createChatRoute\<close> emits to all connected clients; \<^verbatim>\<open>getChatRoute\<close> and
  \<^verbatim>\<open>getChatsByUserRoute\<close> do not emit.
\<close>

theorem chatUpdate_scope:
  "(filter is_emission (createChatRoute sv req) = [] \<or>
      (\<exists>x. filter is_emission (createChatRoute sv req) = [Emit ''chatUpdate'' x])) \<and>
   (filter is_emission (addMessageToChatRoute sv now req) = [] \<or>
      (\<exists>x mid.
         filter is_emission (addMessageToChatRoute sv now req) =
           [EmitTo (map_of (params req) ''chatId'') ''chatUpdate'' x] \<and>
         Call_addMessageToChat (map_of (params req) ''chatId'') mid
           \<in> set (addMessageToChatRoute sv now req))) \<and>
   (filter is_emission (addParticipantToChatRoute sv req) = [] \<or>
      (\<exists>x pid.
         filter is_emission (addParticipantToChatRoute sv req) =
           [EmitTo (map_of (params req) ''chatId'') ''chatUpdate'' x] \<and>
         Call_addParticipantToChat (map_of (params req) ''chatId'') pid
           \<in> set (addParticipantToChatRoute sv req))) \<and>
   filter is_emission (getChatRoute sv req) = [] \<and>
   filter is_emission (getChatsByUserRoute sv req) = []"
proof (intro conjI)
  show "filter is_emission (createChatRoute sv req) = [] \<or>
      (\<exists>x. filter is_emission (createChatRoute sv req) = [Emit ''chatUpdate'' x])"
    by (auto simp: createChatRoute_def populate_then_def split: sum.splits)
  show "filter is_emission (addMessageToChatRoute sv now req) = [] \<or>
      (\<exists>x mid.
         filter is_emission (addMessageToChatRoute sv now req) =
           [EmitTo (map_of (params req) ''chatId'') ''chatUpdate'' x] \<and>
         Call_addMessageToChat (map_of (params req) ''chatId'') mid
           \<in> set (addMessageToChatRoute sv now req))"
    by (auto simp: addMessageToChatRoute_def populate_then_def Let_def
        split: sum.splits option.splits)
  show "filter is_emission (addParticipantToChatRoute sv req) = [] \<or>
      (\<exists>x pid.
         filter is_emission (addParticipantToChatRoute sv req) =
           [EmitTo (map_of (params req) ''chatId'') ''chatUpdate'' x] \<and>
         Call_addParticipantToChat (map_of (params req) ''chatId'') pid
           \<in> set (addParticipantToChatRoute sv req))"
    by (auto simp: addParticipantToChatRoute_def populate_then_def Let_def split: sum.splits)
  show "filter is_emission (getChatRoute sv req) = []"
    by (auto simp: getChatRoute_def populate_then_def Let_def split: sum.splits)
  show "filter is_emission (getChatsByUserRoute sv req) = []"
    by (auto simp: getChatsByUserRoute_def Let_def filter_empty_conv split: sum.splits)
qed

theorem chatUpdate_scope_witness:
  "filter is_emission (addMessageToChatRoute example_services 0 valid_request) =
     [EmitTo (Some ''c1'') ''chatUpdate'' (Pop_chat example_populated)] \<and>
   filter is_emission (addParticipantToChatRoute example_services valid_request) =
     [EmitTo (Some ''c1'') ''chatUpdate'' (Pop_chat example_populated)] \<and>
   filter is_emission (createChatRoute example_services valid_request) =
     [Emit ''chatUpdate'' (Pop_chat example_populated)] \<and>
   filter is_emission (getChatRoute example_services valid_request) = [] \<and>
   filter is_emission (getChatsByUserRoute example_services valid_request) = []"
proof -
  have msg: "filter is_emission (addMessageToChatRoute example_services 0 valid_request) =
     [EmitTo (Some ''c1'') ''chatUpdate'' (Pop_chat example_populated)]"
    by (simp add: addMessageToChatRoute_def populate_then_def isAddMessageRequestValid_def
        valid_request_def example_services_def Let_def)
  have part: "filter is_emission (addParticipantToChatRoute example_services valid_request) =
     [EmitTo (Some ''c1'') ''chatUpdate'' (Pop_chat example_populated)]"
    by (simp add: addParticipantToChatRoute_def populate_then_def
        isAddParticipantRequestValid_def valid_request_def example_services_def Let_def)
  have new: "filter is_emission (createChatRoute example_services valid_request) =
     [Emit ''chatUpdate'' (Pop_chat example_populated)]"
    by (simp add: createChatRoute_def populate_then_def isCreateChatRequestValid_def
        valid_request_def example_services_def)
  from chatUpdate_scope [of example_services valid_request 0]
  have "filter is_emission (getChatRoute example_services valid_request) = []"
    "filter is_emission (getChatsByUserRoute example_services valid_request) = []"
    by blast+
  with msg part new show ?thesis by blast
qed

subsection \<open>Responses\<close>

lemma responses_append: "responses (xs @ ys) = responses xs @ responses ys"
  by (induction xs rule: responses.induct) auto

lemma responses_populate_calls:
  "responses (map (\<lambda>c. Call_populateDocument (f c) k) cs) = []"
  by (induction cs) auto

lemma responses_populate_then:
  "(\<And>x. \<exists>n b. responses (continue x) = [(n, b)] \<and> is_json b) \<Longrightarrow>
   \<exists>n b. responses (populate_then sv i failure continue) = [(n, b)] \<and> is_json b"
  by (auto simp: populate_then_def split: sum.splits)

lemma promise_all_resolves:
  "promise_all ps = Inr vs \<Longrightarrow> p \<in> set ps \<Longrightarrow> \<not> isl p"
  by (induction ps arbitrary: vs) (auto split: sum.splits)

lemma promise_all_rejects:
  "\<exists>p \<in> set ps. isl p \<Longrightarrow> \<exists>t. promise_all ps = Inl t"
  using promise_all_resolves by (cases "promise_all ps") blast+

lemma promise_all_all_resolve:
  "\<forall>p \<in> set ps. \<not> isl p \<Longrightarrow> promise_all ps = Inr (map projr ps)"
  by (induction ps) (auto split: sum.splits)

lemma promise_all_same_failure:
  "\<exists>p \<in> set ps. isl p \<Longrightarrow> \<forall>p \<in> set ps. isl p \<longrightarrow> p = Inl e \<Longrightarrow> promise_all ps = Inl e"
proof (induction ps)
  case Nil
  then show ?case by simp
next
  case (Cons p ps)
  show ?case
  proof (cases p)
    case (Inl t)
    with Cons.prems show ?thesis by auto
  next
    case (Inr v)
    with Cons.prems have "\<exists>p \<in> set ps. isl p" "\<forall>p \<in> set ps. isl p \<longrightarrow> p = Inl e" by auto
    from Cons.IH [OF this] Inr show ?thesis by simp
  qed
qed

lemma populate_one_failure:
  "\<not> isl (populateDocument_result sv (Some (chat_id c)) ''chat'') \<Longrightarrow>
   isl (populate_one sv c) \<Longrightarrow>
   populate_one sv c = Inl (ErrorObj ''Failed populating chats'')"
  by (auto simp: populate_one_def split: sum.splits if_splits)

text \<open>
  C3, as the claim states it, fails: the \<^verbatim>\<open>catch\<close> of \<^verbatim>\<open>getChatsByUserRoute\<close> answers with
  \<^verbatim>\<open>res.status(500).send(...)\<close>, a plain-text body. With one chat found for the user and
  \<^verbatim>\<open>populateDocument\<close> giving an error object for it, the handler does this:
\<close>

theorem getChatsByUserRoute_plain_text:
  "getChatsByUserRoute failing_populate_services valid_request =
     [Call_getChatsByParticipants [Some ''alice''],
      Call_populateDocument (Some ''c1'') ''chat'',
      Respond 500 (Plain_text ''Error retrieving chat: Failed populating chats'')]"
  by (simp add: getChatsByUserRoute_def populate_one_def valid_request_def
      failing_populate_services_def example_services_def example_chat_def Let_def)

text \<open>
  C3, amended. Every handler sends exactly one response. In \<^verbatim>\<open>createChatRoute\<close>,
  \<^verbatim>\<open>addMessageToChatRoute\<close>, \<^verbatim>\<open>getChatRoute\<close> and \<^verbatim>\<open>addParticipantToChatRoute\<close> its body is
  JSON in every branch. \<^verbatim>\<open>getChatsByUserRoute\<close> answers 400 with a JSON error object, and
  does nothing else, when the username is missing; 200 with the JSON list of the
  populated chats when the lookup gave chats and each was populated; and 500 with the
  plain text \<^verbatim>\<open>Error retrieving chat: \<close> followed by a message when populating one of the
  chats fails, the message being \<^verbatim>\<open>Failed populating chats\<close> when no call of
  \<^verbatim>\<open>populateDocument\<close> rejected. A failure of the database in the lookup is no error of
  the handler: \<^verbatim>\<open>getChatsByParticipants\<close> resolves to the empty list then, and the handler
  answers 200 with the empty JSON list.
\<close>

theorem responses_by_route:
  "(\<exists>n b. responses (createChatRoute sv req) = [(n, b)] \<and> is_json b) \<and>
   (\<exists>n b. responses (addMessageToChatRoute sv now req) = [(n, b)] \<and> is_json b) \<and>
   (\<exists>n b. responses (getChatRoute sv req) = [(n, b)] \<and> is_json b) \<and>
   (\<exists>n b. responses (addParticipantToChatRoute sv req) = [(n, b)] \<and> is_json b) \<and>
   (\<not> defined_nonempty (map_of (params req) ''username'') \<longrightarrow>
      getChatsByUserRoute sv req =
        [Respond 400 (Json_error ''Username parameter is required'')]) \<and>
   (\<forall>cs. defined_nonempty (map_of (params req) ''username'') \<and>
      getChatsByParticipants_result sv [map_of (params req) ''username''] = Inr cs \<and>
      list_all (\<lambda>c. \<not> isl (populate_one sv c)) cs \<longrightarrow>
      responses (getChatsByUserRoute sv req) =
        [(200, Json_populated_list (map (\<lambda>c. projr (populate_one sv c)) cs))]) \<and>
   (\<forall>cs. defined_nonempty (map_of (params req) ''username'') \<and>
      getChatsByParticipants_result sv [map_of (params req) ''username''] = Inr cs \<and>
      (\<exists>c \<in> set cs. isl (populate_one sv c)) \<longrightarrow>
      (\<exists>m. responses (getChatsByUserRoute sv req) =
         [(500, Plain_text (''Error retrieving chat: '' @ m))]) \<and>
      (list_all (\<lambda>c. \<not> isl (populateDocument_result sv (Some (chat_id c)) ''chat'')) cs \<longrightarrow>
       responses (getChatsByUserRoute sv req) =
         [(500, Plain_text ''Error retrieving chat: Failed populating chats'')])) \<and>
   (\<forall>d name. map_of (params req) ''username'' = Some name \<and> name \<noteq> [] \<and>
      getChatsByParticipants_result sv [Some name] = fst (getChatsByParticipants d [name]) \<and>
      (\<exists>t fs. faults d = Some t # fs) \<longrightarrow>
      getChatsByUserRoute sv req =
        [Call_getChatsByParticipants [Some name], Respond 200 (Json_populated_list [])])"
proof (intro conjI allI impI)
  show "\<exists>n b. responses (createChatRoute sv req) = [(n, b)] \<and> is_json b"
    by (auto simp: createChatRoute_def split: sum.splits intro!: responses_populate_then)
  show "\<exists>n b. responses (addMessageToChatRoute sv now req) = [(n, b)] \<and> is_json b"
    by (auto simp: addMessageToChatRoute_def Let_def split: sum.splits option.splits
        intro!: responses_populate_then)
  show "\<exists>n b. responses (getChatRoute sv req) = [(n, b)] \<and> is_json b"
    by (auto simp: getChatRoute_def Let_def split: sum.splits intro!: responses_populate_then)
  show "\<exists>n b. responses (addParticipantToChatRoute sv req) = [(n, b)] \<and> is_json b"
    by (auto simp: addParticipantToChatRoute_def Let_def split: sum.splits
        intro!: responses_populate_then)
next
  assume "\<not> defined_nonempty (map_of (params req) ''username'')"
  then show "getChatsByUserRoute sv req =
      [Respond 400 (Json_error ''Username parameter is required'')]"
    by (simp add: getChatsByUserRoute_def Let_def)
next
  fix cs
  let ?u = "map_of (params req) ''username''"
  assume a: "defined_nonempty ?u \<and> getChatsByParticipants_result sv [?u] = Inr cs \<and>
      list_all (\<lambda>c. \<not> isl (populate_one sv c)) cs"
  then have "\<forall>p \<in> set (map (populate_one sv) cs). \<not> isl p"
    by (simp add: list_all_iff)
  from promise_all_all_resolve [OF this] a
  show "responses (getChatsByUserRoute sv req) =
      [(200, Json_populated_list (map (\<lambda>c. projr (populate_one sv c)) cs))]"
    by (simp add: getChatsByUserRoute_def Let_def responses_append responses_populate_calls
        comp_def)
next
  fix cs
  let ?u = "map_of (params req) ''username''"
  assume a: "defined_nonempty ?u \<and> getChatsByParticipants_result sv [?u] = Inr cs \<and>
      (\<exists>c \<in> set cs. isl (populate_one sv c))"
  then have "\<exists>p \<in> set (map (populate_one sv) cs). isl p" by simp
  from promise_all_rejects [OF this] obtain t where
    "promise_all (map (populate_one sv) cs) = Inl t" ..
  with a show "\<exists>m. responses (getChatsByUserRoute sv req) =
      [(500, Plain_text (''Error retrieving chat: '' @ m))]"
    by (simp add: getChatsByUserRoute_def Let_def responses_append responses_populate_calls)
next
  fix cs
  let ?u = "map_of (params req) ''username''"
  assume a: "defined_nonempty ?u \<and> getChatsByParticipants_result sv [?u] = Inr cs \<and>
      (\<exists>c \<in> set cs. isl (populate_one sv c))"
    and b: "list_all (\<lambda>c. \<not> isl (populateDocument_result sv (Some (chat_id c)) ''chat'')) cs"
  from a have some: "\<exists>p \<in> set (map (populate_one sv) cs). isl p" by simp
  from b have "\<forall>p \<in> set (map (populate_one sv) cs).
      isl p \<longrightarrow> p = Inl (ErrorObj ''Failed populating chats'')"
    by (auto simp: list_all_iff dest: populate_one_failure)
  from promise_all_same_failure [OF some this] a
  show "responses (getChatsByUserRoute sv req) =
      [(500, Plain_text ''Error retrieving chat: Failed populating chats'')]"
    by (simp add: getChatsByUserRoute_def Let_def responses_append responses_populate_calls)
next
  fix d name
  assume a: "map_of (params req) ''username'' = Some name \<and> name \<noteq> [] \<and>
      getChatsByParticipants_result sv [Some name] = fst (getChatsByParticipants d [name]) \<and>
      (\<exists>t fs. faults d = Some t # fs)"
  then have "fst (getChatsByParticipants d [name]) = Inr []"
    by (auto simp: getChatsByParticipants_def try_catch_def ChatModel_find_all_def
        next_fault_def)
  with a show "getChatsByUserRoute sv req =
      [Call_getChatsByParticipants [Some name], Respond 200 (Json_populated_list [])]"
    by (simp add: getChatsByUserRoute_def Let_def)
qed

theorem responses_by_route_witness:
  "\<not> defined_nonempty (map_of (params invalid_request) ''username'') \<and>
   getChatsByUserRoute example_services invalid_request =
     [Respond 400 (Json_error ''Username parameter is required'')] \<and>
   map_of (params valid_request) ''username'' = Some ''alice'' \<and>
   getChatsByParticipants_result example_services [Some ''alice''] = Inr [example_chat] \<and>
   list_all (\<lambda>c. \<not> isl (populate_one example_services c)) [example_chat] \<and>
   responses (getChatsByUserRoute example_services valid_request) =
     [(200, Json_populated_list [Pop_chat example_populated])] \<and>
   getChatsByParticipants_result failing_populate_services [Some ''alice''] =
     Inr [example_chat] \<and>
   isl (populate_one failing_populate_services example_chat) \<and>
   list_all
     (\<lambda>c. \<not> isl (populateDocument_result failing_populate_services (Some (chat_id c)) ''chat''))
     [example_chat] \<and>
   responses (getChatsByUserRoute failing_populate_services valid_request) =
     [(500, Plain_text ''Error retrieving chat: Failed populating chats'')] \<and>
   faults unreachable_store = [Some (ErrorObj ''connection lost'')] \<and>
   getChatsByParticipants_result (store_services unreachable_store) [Some ''alice''] =
     fst (getChatsByParticipants unreachable_store [''alice'']) \<and>
   getChatsByUserRoute (store_services unreachable_store) valid_request =
     [Call_getChatsByParticipants [Some ''alice''], Respond 200 (Json_populated_list [])]"
proof -
  have nouser: "\<not> defined_nonempty (map_of (params invalid_request) ''username'')"
    by (simp add: invalid_request_def)
  have user: "map_of (params valid_request) ''username'' = Some ''alice''"
    by (simp add: valid_request_def)
  have found: "getChatsByParticipants_result example_services [Some ''alice''] =
      Inr [example_chat]"
    "getChatsByParticipants_result failing_populate_services [Some ''alice''] =
      Inr [example_chat]"
    by (simp_all add: failing_populate_services_def example_services_def)
  have populated: "list_all (\<lambda>c. \<not> isl (populate_one example_services c)) [example_chat]"
    "projr (populate_one example_services example_chat) = Pop_chat example_populated"
    by (simp_all add: populate_one_def example_services_def)
  have fails: "isl (populate_one failing_populate_services example_chat)"
    by (simp add: populate_one_def failing_populate_services_def example_services_def)
  have resolved: "list_all
     (\<lambda>c. \<not> isl (populateDocument_result failing_populate_services (Some (chat_id c)) ''chat''))
     [example_chat]"
    by (simp add: failing_populate_services_def example_services_def)
  have script: "faults unreachable_store = [Some (ErrorObj ''connection lost'')]"
    by (simp add: unreachable_store_def)
  have lookup:
    "getChatsByParticipants_result (store_services unreachable_store) [Some ''alice''] =
     fst (getChatsByParticipants unreachable_store [''alice''])"
    by (simp add: store_services_def example_services_def)
  note route = responses_by_route [where now = 0]
  from route [of example_services invalid_request] nouser
  have missing: "getChatsByUserRoute example_services invalid_request =
     [Respond 400 (Json_error ''Username parameter is required'')]"
    by blast
  from route [of example_services valid_request] user found(1) populated
  have listed: "responses (getChatsByUserRoute example_services valid_request) =
     [(200, Json_populated_list [Pop_chat example_populated])]"
    by simp
  from route [of failing_populate_services valid_request] user found(2) fails resolved
  have plain: "responses (getChatsByUserRoute failing_populate_services valid_request) =
     [(500, Plain_text ''Error retrieving chat: Failed populating chats'')]"
    by simp
  have thrown: "\<exists>t fs. faults unreachable_store = Some t # fs"
    using script by simp
  have named: "''alice'' \<noteq> []"
    by simp
  from route [of "store_services unreachable_store" valid_request]
  have "map_of (params valid_request) ''username'' = Some ''alice'' \<and> ''alice'' \<noteq> [] \<and>
      getChatsByParticipants_result (store_services unreachable_store) [Some ''alice''] =
        fst (getChatsByParticipants unreachable_store [''alice'']) \<and>
      (\<exists>t fs. faults unreachable_store = Some t # fs) \<longrightarrow>
      getChatsByUserRoute (store_services unreachable_store) valid_request =
        [Call_getChatsByParticipants [Some ''alice''], Respond 200 (Json_populated_list [])]"
    by blast
  with user named lookup thrown
  have absorbed: "getChatsByUserRoute (store_services unreachable_store) valid_request =
     [Call_getChatsByParticipants [Some ''alice''], Respond 200 (Json_populated_list [])]"
    by blast
  show ?thesis
    by (intro conjI; (fact | rule found populated))
qed

subsection \<open>Rooms\<close>

text \<open>
  C7. With a chat identifier that is defined and not empty, a \<^verbatim>\<open>'joinChat'\<close> event puts
  the connection into the room of that name and a \<^verbatim>\<open>'leaveChat'\<close> event takes it out of
  that room. With an identifier that is undefined or empty, neither event changes the
  rooms of the connection, and no other event does.
\<close>

theorem connection_rooms:
  "(defined_nonempty chatID \<longrightarrow>
      (\<exists>c. chatID = Some c \<and>
           rooms_after rooms ''joinChat'' chatID = insert c rooms \<and>
           rooms_after rooms ''leaveChat'' chatID = rooms - {c})) \<and>
   (\<not> defined_nonempty chatID \<longrightarrow>
      rooms_after rooms ''joinChat'' chatID = rooms \<and>
      rooms_after rooms ''leaveChat'' chatID = rooms) \<and>
   (name \<noteq> ''joinChat'' \<and> name \<noteq> ''leaveChat'' \<longrightarrow> rooms_after rooms name chatID = rooms)"
  by (cases chatID)
     (auto simp: rooms_after_def on_event_def connection_listeners_def on_joinChat_def
        on_leaveChat_def)

theorem connection_rooms_witness:
  "defined_nonempty (Some ''c1'') \<and>
   rooms_after {''c0''} ''joinChat'' (Some ''c1'') = {''c1'', ''c0''} \<and>
   rooms_after {''c0'', ''c1''} ''leaveChat'' (Some ''c1'') = {''c0''} \<and>
   \<not> defined_nonempty (Some []) \<and>
   rooms_after {''c0''} ''joinChat'' (Some []) = {''c0''} \<and>
   rooms_after {''c0''} ''leaveChat'' None = {''c0''} \<and>
   rooms_after {''c0''} ''disconnecting'' (Some ''c0'') = {''c0''}"
proof -
  from connection_rooms [of "Some ''c1''" "{''c0''}" "''x''"]
  have joined: "rooms_after {''c0''} ''joinChat'' (Some ''c1'') = {''c1'', ''c0''}"
    by simp
  from connection_rooms [of "Some ''c1''" "{''c0'', ''c1''}" "''x''"]
  have left: "rooms_after {''c0'', ''c1''} ''leaveChat'' (Some ''c1'') = {''c0''}"
    by auto
  from connection_rooms [of "Some []" "{''c0''}" "''x''"]
  have empty: "rooms_after {''c0''} ''joinChat'' (Some []) = {''c0''}"
    by simp
  from connection_rooms [of None "{''c0''}" "''x''"]
  have undef: "rooms_after {''c0''} ''leaveChat'' None = {''c0''}"
    by simp
  from connection_rooms [of "Some ''c0''" "{''c0''}" "''disconnecting''"]
  have other: "rooms_after {''c0''} ''disconnecting'' (Some ''c0'') = {''c0''}"
    by simp
  from joined left empty undef other show ?thesis by simp
qed

section \<open>The direct-message hook: theorems\<close>

lemma handleChatUpdate_created:
  "update_type chatUpdate = ''created'' \<Longrightarrow>
   handleChatUpdate st chatUpdate = st\<lparr>chats := chats st @ [update_chat chatUpdate]\<rparr>"
  by (simp add: handleChatUpdate_def)

lemma handleChatUpdate_other_chat:
  "update_type chatUpdate = ''newMessage'' \<Longrightarrow> selectedChat st = Some sc \<Longrightarrow>
   client_chat_id sc \<noteq> client_chat_id (update_chat chatUpdate) \<Longrightarrow>
   handleChatUpdate st chatUpdate = st"
  by (simp add: handleChatUpdate_def)

lemma handleChatUpdate_typed_update_first_message:
  "selectedChat
     (handleChatUpdate example_direct_message_state
        \<lparr>update_chat =
           example_client_chat
             \<lparr>client_chat_messages := [Some first_message, Some second_message]\<rparr>,
         update_type = ''newMessage''\<rparr>) =
   Some (example_client_chat
           \<lparr>client_chat_messages := [Some first_message, Some first_message]\<rparr>)"
  by (simp add: handleChatUpdate_def example_direct_message_state_def example_client_chat_def)

lemma on_chatUpdate_controller_emission:
  "is_emission e \<Longrightarrow> received e = Some ev \<Longrightarrow> on_chatUpdate st ev = st"
  by (cases e) (auto simp: on_chatUpdate_def split: if_splits)


text \<open>
  C10. \<^verbatim>\<open>handleSendMessage\<close> goes on only when the draft has something other than white
  space, a chat is selected, and the \<^verbatim>\<open>_id\<close> of the selected chat and of the user are
  defined and not empty. Otherwise it makes no API call and leaves the state of the hook
  as it is. When it goes on, it makes one call of \<^verbatim>\<open>sendMessage\<close>, whose \<^verbatim>\<open>msg\<close> is the
  trimmed draft; when that call resolves, the message it resolved to, with the user put
  in, is appended to the messages of the selected chat and the draft is emptied; when it
  rejects, the state is as it was and the handler rejects.
\<close>

theorem handleSendMessage_guard:
  "(\<not> (trim (newMessage st) \<noteq> [] \<and>
        (\<exists>sc cid uid. selectedChat st = Some sc \<and> client_chat_id sc = Some cid \<and> cid \<noteq> [] \<and>
           user_id u = Some uid \<and> uid \<noteq> [])) \<longrightarrow>
      handleSendMessage u now api st = ([], st, None)) \<and>
   (\<forall>sc cid uid.
      trim (newMessage st) \<noteq> [] \<and> selectedChat st = Some sc \<and> client_chat_id sc = Some cid \<and>
      cid \<noteq> [] \<and> user_id u = Some uid \<and> uid \<noteq> [] \<longrightarrow>
      (let payload = \<lparr>payload_chat = cid, payload_msgFrom = uid,
                       payload_msg = trim (newMessage st), payload_msgDateTime = now\<rparr>
       in fst (handleSendMessage u now api st) = [SendMessage payload cid] \<and>
          (\<forall>m. api payload cid = Inr m \<longrightarrow>
             snd (handleSendMessage u now api st) =
               (st\<lparr>selectedChat :=
                     Some (sc\<lparr>client_chat_messages :=
                                 client_chat_messages sc @
                                 [Some (m\<lparr>message_user := Some (Some uid, username u)\<rparr>)]\<rparr>),
                   newMessage := []\<rparr>,
                None)) \<and>
          (\<forall>t. api payload cid = Inl t \<longrightarrow>
             snd (handleSendMessage u now api st) = (st, Some t))))"
  by (auto simp: handleSendMessage_def Let_def split: option.splits sum.splits prod.splits)

theorem handleSendMessage_guard_witness:
  "trim (newMessage example_direct_message_state) = ''hi there'' \<and>
   selectedChat example_direct_message_state = Some example_client_chat \<and>
   client_chat_id example_client_chat = Some ''c1'' \<and>
   user_id example_user = Some ''u1'' \<and>
   fst (handleSendMessage example_user 5 echo_sendMessage example_direct_message_state) =
     [SendMessage \<lparr>payload_chat = ''c1'', payload_msgFrom = ''u1'', payload_msg = ''hi there'',
                   payload_msgDateTime = 5\<rparr> ''c1''] \<and>
   trim (newMessage (example_direct_message_state\<lparr>newMessage := [CHR 0x20, CHR 0x09]\<rparr>)) = [] \<and>
   handleSendMessage example_user 5 echo_sendMessage
       (example_direct_message_state\<lparr>newMessage := [CHR 0x20, CHR 0x09]\<rparr>) =
     ([], example_direct_message_state\<lparr>newMessage := [CHR 0x20, CHR 0x09]\<rparr>, None)"
proof -
  let ?blank = "example_direct_message_state\<lparr>newMessage := [CHR 0x20, CHR 0x09]\<rparr>"
  have draft: "trim (newMessage example_direct_message_state) = ''hi there''"
    by (simp add: example_direct_message_state_def trim_def is_whitespace_def)
  have chat: "selectedChat example_direct_message_state = Some example_client_chat"
    "client_chat_id example_client_chat = Some ''c1''"
    "user_id example_user = Some ''u1''"
    by (simp_all add: example_direct_message_state_def example_client_chat_def example_user_def)
  have blank: "trim (newMessage ?blank) = []"
    by (simp add: trim_def is_whitespace_def)
  from handleSendMessage_guard [where st = ?blank and u = example_user and now = 5
      and api = echo_sendMessage] blank
  have nothing: "handleSendMessage example_user 5 echo_sendMessage ?blank = ([], ?blank, None)"
    by blast
  from handleSendMessage_guard [where st = example_direct_message_state and u = example_user
      and now = 5 and api = echo_sendMessage] draft chat
  have sent: "fst (handleSendMessage example_user 5 echo_sendMessage
      example_direct_message_state) =
     [SendMessage \<lparr>payload_chat = ''c1'', payload_msgFrom = ''u1'', payload_msg = ''hi there'',
                   payload_msgDateTime = 5\<rparr> ''c1'']"
    by (simp add: Let_def)
  show ?thesis by (intro conjI; fact)
qed

section \<open>The game-page hook: theorems\<close>

text \<open>
  C6, as the claim states it, fails: the emission comes after the \<^verbatim>\<open>await\<close> of
  \<^verbatim>\<open>leaveGame\<close> inside the \<^verbatim>\<open>try\<close>, so a game that is joined and not over, with a REST call
  that fails, gets the REST call and no \<^verbatim>\<open>'leaveGame'\<close> event.
\<close>

theorem handleLeaveGame_failed_call_no_emit:
  "handleLeaveGame (Some ''u1'') True failing_leaveGame example_game_page_state =
     ([Api_leaveGame ''g1'' ''u1'', Navigate ''/games''],
      \<lparr>gameState = None, joinedGameID = None, error = None\<rparr>)"
  by (simp add: handleLeaveGame_def example_game_page_state_def failing_leaveGame_def)

text \<open>
  C6, amended. \<^verbatim>\<open>handleLeaveGame\<close> calls the \<^verbatim>\<open>leaveGame\<close> endpoint, for the joined game
  and the user, exactly when a game is joined and its status is not \<^verbatim>\<open>'OVER'\<close>; it emits
  \<^verbatim>\<open>'leaveGame'\<close> with the joined game's identifier exactly when, in addition, that call
  succeeded and the socket is there. In every case the game state, the joined game's
  identifier and the error end up \<^verbatim>\<open>null\<close>, and the last thing the handler does is to
  navigate, once, to \<^verbatim>\<open>/games\<close>.
\<close>

theorem handleLeaveGame_effects:
  "(case handleLeaveGame uid socket api st of
      (done, st') \<Rightarrow>
        ((\<exists>g u. Api_leaveGame g u \<in> set done) \<longleftrightarrow> game_joined_not_over st) \<and>
        ((\<exists>ev g. Socket_emit ev g \<in> set done) \<longleftrightarrow>
           game_joined_not_over st \<and> socket \<and>
           (\<exists>gid. joinedGameID st = Some gid \<and>
              \<not> isl (api gid (case uid of None \<Rightarrow> [] | Some i \<Rightarrow> i)))) \<and>
        (\<forall>ev g. Socket_emit ev g \<in> set done \<longrightarrow>
           ev = ''leaveGame'' \<and> joinedGameID st = Some g) \<and>
        (\<forall>g u. Api_leaveGame g u \<in> set done \<longrightarrow>
           joinedGameID st = Some g \<and> u = (case uid of None \<Rightarrow> [] | Some i \<Rightarrow> i)) \<and>
        st' = \<lparr>gameState = None, joinedGameID = None, error = None\<rparr> \<and>
        last done = Navigate ''/games'' \<and>
        length (filter (\<lambda>e. e = Navigate ''/games'') done) = 1)"
  by (auto simp: handleLeaveGame_def game_joined_not_over_def Let_def
      split: option.splits sum.splits prod.splits)

theorem handleLeaveGame_effects_witness:
  "game_joined_not_over example_game_page_state \<and>
   handleLeaveGame (Some ''u1'') True working_leaveGame example_game_page_state =
     ([Api_leaveGame ''g1'' ''u1'', Socket_emit ''leaveGame'' ''g1'', Navigate ''/games''],
      \<lparr>gameState = None, joinedGameID = None, error = None\<rparr>) \<and>
   \<not> game_joined_not_over (example_game_page_state\<lparr>gameState := Some \<lparr>status = ''OVER''\<rparr>\<rparr>) \<and>
   handleLeaveGame (Some ''u1'') True working_leaveGame
       (example_game_page_state\<lparr>gameState := Some \<lparr>status = ''OVER''\<rparr>\<rparr>) =
     ([Navigate ''/games''], \<lparr>gameState = None, joinedGameID = None, error = None\<rparr>)"
proof -
  let ?over = "example_game_page_state\<lparr>gameState := Some \<lparr>status = ''OVER''\<rparr>\<rparr>"
  have joined: "game_joined_not_over example_game_page_state"
    by (simp add: game_joined_not_over_def example_game_page_state_def)
  have over: "\<not> game_joined_not_over ?over"
    by (simp add: game_joined_not_over_def example_game_page_state_def)
  have left: "handleLeaveGame (Some ''u1'') True working_leaveGame example_game_page_state =
     ([Api_leaveGame ''g1'' ''u1'', Socket_emit ''leaveGame'' ''g1'', Navigate ''/games''],
      \<lparr>gameState = None, joinedGameID = None, error = None\<rparr>)"
    by (simp add: handleLeaveGame_def example_game_page_state_def working_leaveGame_def)
  have quiet: "handleLeaveGame (Some ''u1'') True working_leaveGame ?over =
     ([Navigate ''/games''], \<lparr>gameState = None, joinedGameID = None, error = None\<rparr>)"
    by (simp add: handleLeaveGame_def example_game_page_state_def)
  from handleLeaveGame_effects [where uid = "Some ''u1''" and socket = True
      and api = working_leaveGame and st = example_game_page_state] left
  have "game_joined_not_over example_game_page_state"
    by auto
  with over left quiet show ?thesis by blast
qed

end
